theory Spec2Isabelle
  imports Main
begin

section \<open>Paths\<close>

text \<open>
  A \<open>pathlib.Path\<close> is the list of its components (the names between separators).
  \<open>name\<close> is the final component, \<open>suffix\<close> follows CPython's \<open>PurePath.suffix\<close>
  (3.8 to 3.13): the part of the name from its last dot, provided that dot is neither the
  first nor the last character. \<open>joinpath\<close> is the \<open>/\<close> operator applied to one
  component; an empty segment is ignored, as pathlib does.
\<close>

type_synonym path = "string list"

definition name :: "path \<Rightarrow> string" where
  "name p = (if p = [] then [] else last p)"

definition joinpath :: "path \<Rightarrow> string \<Rightarrow> path" where
  "joinpath d n = (if n = [] then d else d @ [n])"

fun rfind_from :: "char \<Rightarrow> string \<Rightarrow> int \<Rightarrow> int \<Rightarrow> int" where
  "rfind_from c [] i best = best"
| "rfind_from c (x # xs) i best = rfind_from c xs (i + 1) (if x = c then i else best)"

definition rfind :: "char \<Rightarrow> string \<Rightarrow> int" where
  "rfind c s = rfind_from c s 0 (- 1)"

definition suffix :: "path \<Rightarrow> string" where
  "suffix p =
     (let nm = name p; i = rfind (CHR ''.'') nm
      in if 0 < i \<and> i < int (length nm) - 1 then drop (nat i) nm else [])"

text \<open>
  \<open>str.lower\<close> on the bytes of a string: the 26 ASCII capitals are mapped to their
  small letters, every other byte is kept. (No character outside ASCII lower-cases to
  one of the letters of the five extensions the dispatcher knows.)
\<close>

definition lower_char :: "char \<Rightarrow> char" where
  "lower_char c =
     (let n = (of_char c :: nat) in if 65 \<le> n \<and> n \<le> 90 then char_of (n + 32) else c)"

definition lower :: "string \<Rightarrow> string" where
  "lower s = map lower_char s"

section \<open>Documents, files and the log\<close>

datatype page = Page string

text \<open>A PDF as the reader sees it: its pages and its document-info dictionary.\<close>

record pdf_document =
  pages :: "page list"
  info :: "(string \<times> string) list option"

text \<open>
  The six core properties the handler assigns, and two it leaves alone; the main
  document part (\<open>word/document.xml\<close>) as an element tree, which is what
  \<open>doc.element\<close> is; the comments part (\<open>word/comments.xml\<close>), where a DOCX
  keeps the \<open>w:comment\<close> elements of its comments, when it has one. \<open>ident\<close> stands
  for the identity of an element object (two elements of one tree have different
  identities).
\<close>

record core_properties =
  author :: "string option"
  title :: "string option"
  subject :: "string option"
  "keywords" :: "string option"
  comments :: "string option"
  last_modified_by :: "string option"
  category :: "string option"
  revision :: nat

datatype xml = Element (ident: nat) (tag: string) (children: "xml list")

record docx_document =
  core :: core_properties
  element :: xml
  comments_part :: "xml option"

text \<open>
  An image: mode, size (width, height), the flattened pixel sequence that
  \<open>getdata\<close> returns (for a palette image: the palette indices), the palette of a
  palette image, and the auxiliary data of its container (EXIF, ICC profile, text
  chunks).
\<close>

record image =
  mode :: string
  im_size :: "nat \<times> nat"
  pixels :: "nat list"
  palette :: "nat list option"
  im_info :: "(string \<times> string) list"

datatype content =
    PdfFile pdf_document
  | DocxFile docx_document
  | ImageFile image
  | Other string
  | Partial

datatype exn =
    FileNotFoundError
  | PdfReadError
  | PackageNotFoundError
  | UnidentifiedImageError
  | AttributeError
  | TypeError
  | OSError string
  | KeyboardInterrupt

text \<open>\<open>isinstance(e, Exception)\<close>: everything but the interrupt derives from \<open>Exception\<close>.\<close>

fun is_Exception :: "exn \<Rightarrow> bool" where
  "is_Exception KeyboardInterrupt = False"
| "is_Exception e = True"

datatype kind = PDF | DOCX | IMAGE

datatype log_entry =
    Info kind path path
  | Error kind path exn
  | Warning path

fun entry_path :: "log_entry \<Rightarrow> path" where
  "entry_path (Info k src dst) = src"
| "entry_path (Error k src e) = src"
| "entry_path (Warning src) = src"

text \<open>
  The file system and the log. \<open>resolve\<close> gives the file a path names, as the
  operating system finds it: through \<open>.\<close> and \<open>..\<close>, the working directory of a
  relative path, and links. Two paths name the same file exactly when they resolve alike;
  \<open>disk\<close> holds the content of each file, and \<open>files\<close> reads the file a path names.
\<close>

record state =
  disk :: "path \<rightharpoonup> content"
  resolve :: "path \<Rightarrow> path"
  logs :: "log_entry list"

definition files :: "state \<Rightarrow> path \<rightharpoonup> content" where
  "files s p = disk s (resolve s p)"

type_synonym result = "(exn \<times> state) + state"

definition logging :: "log_entry \<Rightarrow> state \<Rightarrow> state" where
  "logging e s = s\<lparr>logs := logs s @ [e]\<rparr>"

definition store :: "path \<Rightarrow> content \<Rightarrow> state \<Rightarrow> state" where
  "store p c s = s\<lparr>disk := (disk s)(resolve s p \<mapsto> c)\<rparr>"

section \<open>The libraries\<close>

text \<open>
  What a failed library save leaves at the destination, and the outcomes that the
  environment decides: whether \<open>open(p, "wb")\<close> raises, whether serialising a
  document to an opened file raises, whether a library's \<open>save\<close> raises and what it
  leaves behind, and the image that a file written by a lossy encoder decodes to.
\<close>

datatype leftover = Untouched | Removed | Truncated

record env =
  open_error :: "path \<Rightarrow> exn option"
  pdf_write_error :: "pdf_document \<Rightarrow> path \<Rightarrow> exn option"
  docx_save_error :: "docx_document \<Rightarrow> path \<Rightarrow> (exn \<times> leftover) option"
  image_save_error :: "image \<Rightarrow> path \<Rightarrow> (exn \<times> leftover) option"
  recode :: "path \<Rightarrow> image \<Rightarrow> image"

definition leave :: "leftover \<Rightarrow> path \<Rightarrow> state \<Rightarrow> state" where
  "leave l p s =
     (case l of
        Untouched \<Rightarrow> s
      | Removed \<Rightarrow> s\<lparr>disk := (disk s)(resolve s p := None)\<rparr>
      | Truncated \<Rightarrow> store p Partial s)"

text \<open>
  PyPDF2. \<open>PdfReader(path)\<close> loads the pages of a PDF file and raises on a missing or
  unreadable file; \<open>PdfWriter()\<close> is a fresh document that carries the library's own
  info dictionary; \<open>add_page\<close> appends a page unchanged; \<open>write\<close> serialises the
  pages and the trailer, whose \<open>/Info\<close> entry is the writer's \<open>_info\<close>. Whether a
  write raises is the environment's \<open>pdf_write_error\<close>.
\<close>

definition PdfReader :: "(path \<rightharpoonup> content) \<Rightarrow> path \<Rightarrow> exn + pdf_document" where
  "PdfReader fs p =
     (case fs p of
        None \<Rightarrow> Inl FileNotFoundError
      | Some (PdfFile d) \<Rightarrow> Inr d
      | Some _ \<Rightarrow> Inl PdfReadError)"

definition PdfWriter :: pdf_document where
  "PdfWriter = \<lparr>pages = [], info = Some [(''/Producer'', ''PyPDF2'')]\<rparr>"

definition add_page :: "page \<Rightarrow> pdf_document \<Rightarrow> pdf_document" where
  "add_page pg w = w\<lparr>pages := pages w @ [pg]\<rparr>"

text \<open>
  python-docx. \<open>Document(path)\<close> loads a DOCX file and raises on anything else; the
  setter of a core property stores the text of the value it is given, \<open>str(value)\<close>,
  so that assigning \<open>None\<close> stores the text \<open>None\<close>;
  \<open>element.xpath("//w:comment")\<close> lists, in document order, every element of the main
  document part with that tag; \<open>getparent\<close> of the root is \<open>None\<close>; \<open>remove\<close>
  detaches a child from its parent; \<open>save\<close> writes every part of the document as it
  stands.
\<close>

definition str_of :: "string option \<Rightarrow> string" where
  "str_of v = (case v of None \<Rightarrow> ''None'' | Some t \<Rightarrow> t)"

definition Document :: "(path \<rightharpoonup> content) \<Rightarrow> path \<Rightarrow> exn + docx_document" where
  "Document fs p =
     (case fs p of
        None \<Rightarrow> Inl PackageNotFoundError
      | Some (DocxFile d) \<Rightarrow> Inr d
      | Some _ \<Rightarrow> Inl PackageNotFoundError)"

fun descendants_or_self :: "xml \<Rightarrow> xml list" where
  "descendants_or_self (Element i t cs) =
     Element i t cs # concat (map descendants_or_self cs)"

definition xpath_comment :: "xml \<Rightarrow> xml list" where
  "xpath_comment t = filter (\<lambda>e. tag e = ''w:comment'') (descendants_or_self t)"

fun remove_node :: "nat \<Rightarrow> xml \<Rightarrow> xml" where
  "remove_node i (Element j t cs) =
     Element j t (map (remove_node i) (filter (\<lambda>c. ident c \<noteq> i) cs))"

text \<open>
  Pillow. \<open>Image.open(path)\<close> loads a JPEG or PNG and raises on anything else;
  \<open>getdata\<close> is the flattened pixel sequence; \<open>Image.new(mode, size)\<close> is an image
  of that mode and size, every pixel 0, with no palette of its own and no auxiliary data;
  \<open>putdata\<close> copies a sequence over the pixels from the upper left corner and refuses a
  sequence longer than the image; \<open>save\<close> picks the format from the extension of the
  destination: PNG stores the image as it stands, any other format (JPEG) stores what
  its encoder makes of it, the environment's \<open>recode\<close>.
\<close>

definition Image_open :: "(path \<rightharpoonup> content) \<Rightarrow> path \<Rightarrow> exn + image" where
  "Image_open fs p =
     (case fs p of
        None \<Rightarrow> Inl FileNotFoundError
      | Some (ImageFile im) \<Rightarrow> Inr im
      | Some _ \<Rightarrow> Inl UnidentifiedImageError)"

definition getdata :: "image \<Rightarrow> nat list" where
  "getdata im = pixels im"

definition Image_new :: "string \<Rightarrow> nat \<times> nat \<Rightarrow> image" where
  "Image_new m sz =
     \<lparr>mode = m, im_size = sz, pixels = replicate (fst sz * snd sz) 0, palette = None,
      im_info = []\<rparr>"

definition putdata :: "nat list \<Rightarrow> image \<Rightarrow> exn + image" where
  "putdata data im =
     (if length data > fst (im_size im) * snd (im_size im) then Inl TypeError
      else Inr (im\<lparr>pixels := data @ drop (length data) (pixels im)\<rparr>))"

definition saved :: "env \<Rightarrow> path \<Rightarrow> image \<Rightarrow> image" where
  "saved E p im = (if lower (suffix p) = ''.png'' then im else recode E p im)"

section \<open>The handlers\<close>

text \<open>
  \<open>try: ... except Exception as e: logging.error(...)\<close>. The body either returns a
  state or raises, with the state reached at the raise; the handler catches what derives
  from \<open>Exception\<close> and logs it, and lets anything else through.
\<close>

definition except_Exception :: "kind \<Rightarrow> path \<Rightarrow> result \<Rightarrow> result" where
  "except_Exception k file_path body =
     (case body of
        Inr s \<Rightarrow> Inr s
      | Inl (e, s) \<Rightarrow>
          if is_Exception e then Inr (logging (Error k file_path e) s) else Inl (e, s))"

fun add_pages :: "page list \<Rightarrow> pdf_document \<Rightarrow> pdf_document" where
  "add_pages [] writer = writer"
| "add_pages (pg # pgs) writer = add_pages pgs (add_page pg writer)"

definition pdf_body :: "env \<Rightarrow> path \<Rightarrow> path \<Rightarrow> state \<Rightarrow> result" where
  "pdf_body E file_path output_path s =
     (case PdfReader (files s) file_path of
        Inl e \<Rightarrow> Inl (e, s)
      | Inr reader \<Rightarrow>
          let writer = add_pages (pages reader) PdfWriter;
              writer = writer\<lparr>info := None\<rparr>
          in (case open_error E output_path of
                Some e \<Rightarrow> Inl (e, s)
              | None \<Rightarrow>
                  let s1 = store output_path Partial s
                  in (case pdf_write_error E writer output_path of
                        Some e \<Rightarrow> Inl (e, s1)
                      | None \<Rightarrow>
                          Inr (logging (Info PDF file_path output_path)
                                 (store output_path (PdfFile writer) s1)))))"

definition strip_pdf_metadata :: "env \<Rightarrow> path \<Rightarrow> path \<Rightarrow> state \<Rightarrow> result" where
  "strip_pdf_metadata E file_path output_path s =
     except_Exception PDF file_path (pdf_body E file_path output_path s)"

definition clear_core :: "core_properties \<Rightarrow> core_properties" where
  "clear_core cp =
     cp\<lparr>author := Some (str_of None), title := Some (str_of None),
        subject := Some (str_of None), keywords := Some (str_of None),
        comments := Some (str_of None), last_modified_by := Some (str_of None)\<rparr>"

fun remove_comments :: "xml list \<Rightarrow> xml \<Rightarrow> exn + xml" where
  "remove_comments [] root = Inr root"
| "remove_comments (c # cs) root =
     (if ident c = ident root then Inl AttributeError
      else remove_comments cs (remove_node (ident c) root))"

definition docx_body :: "env \<Rightarrow> path \<Rightarrow> path \<Rightarrow> state \<Rightarrow> result" where
  "docx_body E file_path output_path s =
     (case Document (files s) file_path of
        Inl e \<Rightarrow> Inl (e, s)
      | Inr doc \<Rightarrow>
          let doc = doc\<lparr>core := clear_core (core doc)\<rparr>
          in (case remove_comments (xpath_comment (element doc)) (element doc) of
                Inl e \<Rightarrow> Inl (e, s)
              | Inr root \<Rightarrow>
                  let doc = doc\<lparr>element := root\<rparr>
                  in (case docx_save_error E doc output_path of
                        Some (e, l) \<Rightarrow> Inl (e, leave l output_path s)
                      | None \<Rightarrow>
                          Inr (logging (Info DOCX file_path output_path)
                                 (store output_path (DocxFile doc) s)))))"

definition strip_docx_metadata :: "env \<Rightarrow> path \<Rightarrow> path \<Rightarrow> state \<Rightarrow> result" where
  "strip_docx_metadata E file_path output_path s =
     except_Exception DOCX file_path (docx_body E file_path output_path s)"

definition image_body :: "env \<Rightarrow> path \<Rightarrow> path \<Rightarrow> state \<Rightarrow> result" where
  "image_body E file_path output_path s =
     (case Image_open (files s) file_path of
        Inl e \<Rightarrow> Inl (e, s)
      | Inr img \<Rightarrow>
          let data = getdata img
          in (case putdata data (Image_new (mode img) (im_size img)) of
                Inl e \<Rightarrow> Inl (e, s)
              | Inr image_without_metadata \<Rightarrow>
                  (case image_save_error E image_without_metadata output_path of
                     Some (e, l) \<Rightarrow> Inl (e, leave l output_path s)
                   | None \<Rightarrow>
                       Inr (logging (Info IMAGE file_path output_path)
                              (store output_path
                                 (ImageFile (saved E output_path image_without_metadata)) s)))))"

definition strip_image_metadata :: "env \<Rightarrow> path \<Rightarrow> path \<Rightarrow> state \<Rightarrow> result" where
  "strip_image_metadata E file_path output_path s =
     except_Exception IMAGE file_path (image_body E file_path output_path s)"

section \<open>Dispatcher and walker\<close>

definition process_file :: "env \<Rightarrow> path \<Rightarrow> path \<Rightarrow> state \<Rightarrow> result" where
  "process_file E file_path output_dir s =
     (let file_extension = lower (suffix file_path);
          output_path = joinpath output_dir (name file_path)
      in if file_extension = ''.pdf'' then strip_pdf_metadata E file_path output_path s
         else if file_extension = ''.docx'' then strip_docx_metadata E file_path output_path s
         else if file_extension \<in> set [''.jpg'', ''.jpeg'', ''.png'']
           then strip_image_metadata E file_path output_path s
         else Inr (logging (Warning file_path) s))"



fun process_files :: "env \<Rightarrow> path \<Rightarrow> string list \<Rightarrow> path \<Rightarrow> state \<Rightarrow> result" where
  "process_files E root [] output_dir s = Inr s"
| "process_files E root (file # rest) output_dir s =
     (case process_file E (joinpath root file) output_dir s of
        Inl x \<Rightarrow> Inl x
      | Inr s' \<Rightarrow> process_files E root rest output_dir s')"



section \<open>Vocabulary of the properties\<close>

text \<open>
  The state a call ends in, whether it returns or lets an exception through; the elements
  strictly below a node, and the pair (identity, tag) of an element.
\<close>

definition final_state :: "result \<Rightarrow> state" where
  "final_state r = (case r of Inr s \<Rightarrow> s | Inl (e, s) \<Rightarrow> s)"

definition proper_descendants :: "xml \<Rightarrow> xml list" where
  "proper_descendants t = concat (map descendants_or_self (children t))"

definition label :: "xml \<Rightarrow> nat \<times> string" where
  "label x = (ident x, tag x)"

text \<open>The comment nodes of a document: those of its main part and of its comments part.\<close>

definition comment_nodes :: "docx_document \<Rightarrow> xml list" where
  "comment_nodes d =
     xpath_comment (element d)
     @ (case comments_part d of None \<Rightarrow> [] | Some t \<Rightarrow> xpath_comment t)"

text \<open>
  An environment in which every exception of a library call or of \<open>open\<close> derives
  from \<open>Exception\<close>: the errors of Python, as opposed to an interrupt.
\<close>

definition only_Exceptions :: "env \<Rightarrow> bool" where
  "only_Exceptions E \<longleftrightarrow>
     (\<forall>p e. open_error E p = Some e \<longrightarrow> is_Exception e)
   \<and> (\<forall>w p e. pdf_write_error E w p = Some e \<longrightarrow> is_Exception e)
   \<and> (\<forall>d p e l. docx_save_error E d p = Some (e, l) \<longrightarrow> is_Exception e)
   \<and> (\<forall>i p e l. image_save_error E i p = Some (e, l) \<longrightarrow> is_Exception e)"



section \<open>Example inputs\<close>

text \<open>
  A file system without links: an absolute path begins with the component \<open>/\<close>, a
  relative one is taken from the working directory, \<open>.\<close> is skipped and \<open>..\<close> leaves
  the directory reached so far.
\<close>

fun norm_onto :: "path \<Rightarrow> path \<Rightarrow> path" where
  "norm_onto acc [] = acc"
| "norm_onto acc (c # cs) =
     (if c = ''.'' then norm_onto acc cs
      else if c = ''..'' then norm_onto (if acc = [''/''] then acc else butlast acc) cs
      else norm_onto (acc @ [c]) cs)"

definition abspath :: "path \<Rightarrow> path \<Rightarrow> path" where
  "abspath cwd p = norm_onto [] (if p \<noteq> [] \<and> hd p = ''/'' then p else cwd @ p)"

text \<open>
  An encoder that loses precision, standing for JPEG's: every pixel value is rounded
  down to a multiple of 8.
\<close>

definition lossy_example :: "image \<Rightarrow> image" where
  "lossy_example im = im\<lparr>pixels := map (\<lambda>v. 8 * (v div 8)) (pixels im)\<rparr>"

text \<open>
  An environment without failures, one whose disk is full when a PDF is written, and
  one in which writing a PDF raises as PyPDF2 does when the writer's info entry is
  \<open>None\<close>; a PDF with an info dictionary, a DOCX with core properties and two
  comments, an image with EXIF data; a directory three levels deep.
\<close>

definition env_ok :: env where
  "env_ok = \<lparr>open_error = (\<lambda>p. None), pdf_write_error = (\<lambda>w p. None),
     docx_save_error = (\<lambda>d p. None), image_save_error = (\<lambda>i p. None),
     recode = (\<lambda>p. lossy_example)\<rparr>"

definition env_disk_full :: env where
  "env_disk_full = \<lparr>open_error = (\<lambda>p. None),
     pdf_write_error = (\<lambda>w p. Some (OSError ''No space left on device'')),
     docx_save_error = (\<lambda>d p. None), image_save_error = (\<lambda>i p. None),
     recode = (\<lambda>p. lossy_example)\<rparr>"

definition env_PyPDF2 :: env where
  "env_PyPDF2 = \<lparr>open_error = (\<lambda>p. None),
     pdf_write_error = (\<lambda>w p. case info w of None \<Rightarrow> Some AttributeError | Some i \<Rightarrow> None),
     docx_save_error = (\<lambda>d p. None), image_save_error = (\<lambda>i p. None),
     recode = (\<lambda>p. lossy_example)\<rparr>"

definition example_pdf :: pdf_document where
  "example_pdf = \<lparr>pages = [Page ''one'', Page ''two''], info = Some [(''/Author'', ''alice'')]\<rparr>"

definition example_docx :: docx_document where
  "example_docx =
     \<lparr>core = \<lparr>author = Some ''alice'', title = Some ''Offer'', subject = None,
              keywords = Some ''draft'', comments = Some ''internal'',
              last_modified_by = Some ''bob'', category = Some ''legal'', revision = 7\<rparr>,
      element =
        Element 0 ''w:document''
          [Element 1 ''w:body''
             [Element 2 ''w:p''
                [Element 3 ''w:commentRangeStart'' [], Element 4 ''w:r'' [],
                 Element 5 ''w:commentRangeEnd'' [], Element 6 ''w:commentReference'' []],
              Element 7 ''w:p'' []]],
      comments_part =
        Some (Element 8 ''w:comments''
                [Element 9 ''w:comment'' [Element 10 ''w:p'' []],
                 Element 11 ''w:comment'' [Element 12 ''w:p'' []]])\<rparr>"

definition example_image :: image where
  "example_image = \<lparr>mode = ''RGB'', im_size = (2, 2), pixels = [10, 20, 30, 40],
     palette = None, im_info = [(''exif'', ''GPS 52.5N 13.4E'')]\<rparr>"

definition example_state :: state where
  "example_state =
     \<lparr>disk = [[''/'', ''home'', ''in'', ''REPORT.PDF''] \<mapsto> PdfFile example_pdf,
              [''/'', ''home'', ''in'', ''broken.pdf''] \<mapsto> Other ''garbage'',
              [''/'', ''home'', ''in'', ''sub'', ''letter.docx''] \<mapsto> DocxFile example_docx,
              [''/'', ''home'', ''in'', ''sub'', ''deep'', ''photo.JPG'']
                \<mapsto> ImageFile example_image,
              [''/'', ''home'', ''in'', ''logo.png''] \<mapsto> ImageFile example_image],
      resolve = abspath [''/'', ''home''],
      logs = []\<rparr>"


section \<open>Basic facts\<close>

lemma files_logging [simp]: "files (logging e s) = files s"
  by (rule ext) (simp add: logging_def files_def)

lemma logs_logging [simp]: "logs (logging e s) = logs s @ [e]"
  by (simp add: logging_def)

lemma resolve_logging [simp]: "resolve (logging e s) = resolve s"
  by (simp add: logging_def)

lemma resolve_store [simp]: "resolve (store p c s) = resolve s"
  by (simp add: store_def)

lemma files_store [simp]:
  "files (store p c s) q = (if resolve s q = resolve s p then Some c else files s q)"
  by (simp add: store_def files_def)

lemma logs_store [simp]: "logs (store p c s) = logs s"
  by (simp add: store_def)

lemma resolve_leave [simp]: "resolve (leave l p s) = resolve s"
  by (cases l) (simp_all add: leave_def)

lemma files_leave_other:
  "resolve s q \<noteq> resolve s p \<Longrightarrow> files (leave l p s) q = files s q"
  by (cases l) (simp_all add: leave_def files_def store_def)

lemma logs_leave [simp]: "logs (leave l p s) = logs s"
  by (cases l) (simp_all add: leave_def)

lemma final_state_simps [simp]:
  "final_state (Inr s) = s" "final_state (Inl (e, s)) = s"
  by (simp_all add: final_state_def)

lemma name_snoc [simp]: "name (d @ [n]) = n"
  by (simp add: name_def)

lemma joinpath_nonempty [simp]: "n \<noteq> [] \<Longrightarrow> joinpath d n = d @ [n]"
  by (simp add: joinpath_def)

lemma rfind_from_notin: "c \<notin> set s \<Longrightarrow> rfind_from c s i best = best"
  by (induction s arbitrary: i) auto

lemma suffix_no_dot: "CHR ''.'' \<notin> set n \<Longrightarrow> suffix (d @ [n]) = []"
  by (simp add: suffix_def rfind_def rfind_from_notin)

lemma suffix_leading_dot: "CHR ''.'' \<notin> set n \<Longrightarrow> suffix (d @ [CHR ''.'' # n]) = []"
  by (simp add: suffix_def rfind_def rfind_from_notin)

text \<open>Reading the example file system.\<close>

lemma example_resolve [simp]: "resolve example_state = abspath [''/'', ''home'']"
  by (simp add: example_state_def)

lemma example_logs [simp]: "logs example_state = []"
  by (simp add: example_state_def)

lemma example_files:
  "files example_state [''in'', ''REPORT.PDF''] = Some (PdfFile example_pdf)"
  "files example_state [''in'', ''broken.pdf''] = Some (Other ''garbage'')"
  "files example_state [''in'', ''sub'', ''letter.docx''] = Some (DocxFile example_docx)"
  "files example_state [''in'', ''sub'', ''deep'', ''photo.JPG''] = Some (ImageFile example_image)"
  "files example_state [''in'', ''logo.png''] = Some (ImageFile example_image)"
  "files example_state [''out'', ''REPORT.PDF''] = None"
  "files example_state [''out'', ''broken.pdf''] = None"
  by (simp_all add: files_def example_state_def abspath_def)

subsection \<open>Only the destination is written\<close>

lemma final_except: "files (final_state (except_Exception k p r)) = files (final_state r)"
  by (cases r) (auto simp: except_Exception_def)

lemma resolve_final_except:
  "resolve (final_state (except_Exception k p r)) = resolve (final_state r)"
  by (cases r) (auto simp: except_Exception_def)

lemma pdf_body_frame:
  "resolve s q \<noteq> resolve s dst \<Longrightarrow> files (final_state (pdf_body E src dst s)) q = files s q"
  by (simp add: pdf_body_def Let_def split: sum.splits option.splits)

lemma docx_body_frame:
  "resolve s q \<noteq> resolve s dst \<Longrightarrow> files (final_state (docx_body E src dst s)) q = files s q"
  by (simp add: docx_body_def Let_def files_leave_other split: sum.splits option.splits prod.splits)

lemma image_body_frame:
  "resolve s q \<noteq> resolve s dst \<Longrightarrow> files (final_state (image_body E src dst s)) q = files s q"
  by (simp add: image_body_def Let_def files_leave_other split: sum.splits option.splits prod.splits)

lemma process_file_frame:
  "resolve s q \<noteq> resolve s (joinpath out (name p)) \<Longrightarrow>
     files (final_state (process_file E p out s)) q = files s q"
  by (simp add: process_file_def Let_def strip_pdf_metadata_def strip_docx_metadata_def
      strip_image_metadata_def final_except pdf_body_frame docx_body_frame image_body_frame)

lemma process_file_empty_suffix:
  "suffix p = [] \<Longrightarrow> process_file E p out s = Inr (logging (Warning p) s)"
  by (simp add: process_file_def lower_def)

subsection \<open>One log line for each file\<close>

lemma pdf_body_logs:
  "pdf_body E src dst s = Inr s' \<Longrightarrow> logs s' = logs s @ [Info PDF src dst]"
  "pdf_body E src dst s = Inl (e, s1) \<Longrightarrow> logs s1 = logs s"
  by (auto simp: pdf_body_def Let_def split: sum.splits option.splits)

lemma docx_body_logs:
  "docx_body E src dst s = Inr s' \<Longrightarrow> logs s' = logs s @ [Info DOCX src dst]"
  "docx_body E src dst s = Inl (e, s1) \<Longrightarrow> logs s1 = logs s"
  by (auto simp: docx_body_def Let_def split: sum.splits option.splits prod.splits)

lemma image_body_logs:
  "image_body E src dst s = Inr s' \<Longrightarrow> logs s' = logs s @ [Info IMAGE src dst]"
  "image_body E src dst s = Inl (e, s1) \<Longrightarrow> logs s1 = logs s"
  by (auto simp: image_body_def Let_def split: sum.splits option.splits prod.splits)

lemma except_Exception_Inr:
  "except_Exception k p r = Inr s' \<Longrightarrow>
     r = Inr s' \<or> (\<exists>e s1. r = Inl (e, s1) \<and> is_Exception e \<and> s' = logging (Error k p e) s1)"
  by (cases r) (auto simp: except_Exception_def split: if_splits)

lemma except_Exception_success:
  assumes "except_Exception k p r = Inr s'" and "logs s' = l @ [Info k' p' d']"
  shows "r = Inr s'"
  using except_Exception_Inr [OF assms(1)] assms(2) by auto

lemma strip_pdf_one_entry:
  assumes "strip_pdf_metadata E src dst s = Inr s'"
  shows "\<exists>en. logs s' = logs s @ [en] \<and> entry_path en = src"
  using except_Exception_Inr [OF assms [unfolded strip_pdf_metadata_def]]
  by (auto dest: pdf_body_logs)

lemma strip_docx_one_entry:
  assumes "strip_docx_metadata E src dst s = Inr s'"
  shows "\<exists>en. logs s' = logs s @ [en] \<and> entry_path en = src"
  using except_Exception_Inr [OF assms [unfolded strip_docx_metadata_def]]
  by (auto dest: docx_body_logs)

lemma strip_image_one_entry:
  assumes "strip_image_metadata E src dst s = Inr s'"
  shows "\<exists>en. logs s' = logs s @ [en] \<and> entry_path en = src"
  using except_Exception_Inr [OF assms [unfolded strip_image_metadata_def]]
  by (auto dest: image_body_logs)

lemma process_file_one_entry:
  assumes "process_file E p out s = Inr s'"
  shows "\<exists>en. logs s' = logs s @ [en] \<and> entry_path en = p"
  using assms
  by (auto simp: process_file_def Let_def split: if_splits
      dest: strip_pdf_one_entry strip_docx_one_entry strip_image_one_entry)

lemma process_files_paths:
  "process_files E root fs out s = Inr s' \<Longrightarrow>
     map entry_path (logs s') = map entry_path (logs s) @ map (joinpath root) fs"
proof (induction fs arbitrary: s)
  case Nil
  then show ?case by simp
next
  case (Cons f fs)
  from Cons.prems obtain s1 where
    1: "process_file E (joinpath root f) out s = Inr s1" and
    2: "process_files E root fs out s1 = Inr s'"
    by (auto split: sum.splits)
  from process_file_one_entry [OF 1] obtain en where
    "logs s1 = logs s @ [en]" "entry_path en = joinpath root f" by blast
  with Cons.IH [OF 2] show ?case by simp
qed

subsection \<open>Errors are caught\<close>

lemma remove_comments_error: "remove_comments cs root = Inl e \<Longrightarrow> e = AttributeError"
  by (induction cs arbitrary: root) (auto split: if_splits)

lemma only_Exceptions_open:
  "only_Exceptions E \<Longrightarrow> open_error E p = Some e \<Longrightarrow> is_Exception e"
  unfolding only_Exceptions_def by blast

lemma only_Exceptions_pdf_write:
  "only_Exceptions E \<Longrightarrow> pdf_write_error E w p = Some e \<Longrightarrow> is_Exception e"
  unfolding only_Exceptions_def by blast

lemma only_Exceptions_docx_save:
  "only_Exceptions E \<Longrightarrow> docx_save_error E d p = Some (e, l) \<Longrightarrow> is_Exception e"
  unfolding only_Exceptions_def by blast

lemma only_Exceptions_image_save:
  "only_Exceptions E \<Longrightarrow> image_save_error E i p = Some (e, l) \<Longrightarrow> is_Exception e"
  unfolding only_Exceptions_def by blast

lemma pdf_body_raises:
  "only_Exceptions E \<Longrightarrow> pdf_body E src dst s = Inl (e, s1) \<Longrightarrow> is_Exception e"
  by (auto simp: pdf_body_def Let_def PdfReader_def
      split: sum.splits option.splits content.splits
      dest: only_Exceptions_open only_Exceptions_pdf_write)

lemma docx_body_raises:
  "only_Exceptions E \<Longrightarrow> docx_body E src dst s = Inl (e, s1) \<Longrightarrow> is_Exception e"
  by (auto simp: docx_body_def Let_def Document_def
      split: sum.splits option.splits content.splits prod.splits
      dest: remove_comments_error only_Exceptions_docx_save)

lemma image_body_raises:
  "only_Exceptions E \<Longrightarrow> image_body E src dst s = Inl (e, s1) \<Longrightarrow> is_Exception e"
  by (auto simp: image_body_def Let_def Image_open_def putdata_def
      split: sum.splits option.splits content.splits prod.splits if_splits
      dest: only_Exceptions_image_save)

lemma except_Exception_returns:
  assumes "\<And>e s1. r = Inl (e, s1) \<Longrightarrow> is_Exception e"
  shows "\<exists>s'. except_Exception k p r = Inr s'"
  using assms by (cases r) (auto simp: except_Exception_def)

lemma except_Exception_caught:
  "r = Inl (e, s1) \<Longrightarrow> is_Exception e \<Longrightarrow>
     except_Exception k p r = Inr (logging (Error k p e) s1)"
  by (simp add: except_Exception_def)

lemma strip_pdf_returns:
  "only_Exceptions E \<Longrightarrow> \<exists>s'. strip_pdf_metadata E src dst s = Inr s'"
  unfolding strip_pdf_metadata_def
  by (rule except_Exception_returns) (rule pdf_body_raises)

lemma strip_docx_returns:
  "only_Exceptions E \<Longrightarrow> \<exists>s'. strip_docx_metadata E src dst s = Inr s'"
  unfolding strip_docx_metadata_def
  by (rule except_Exception_returns) (rule docx_body_raises)

lemma strip_image_returns:
  "only_Exceptions E \<Longrightarrow> \<exists>s'. strip_image_metadata E src dst s = Inr s'"
  unfolding strip_image_metadata_def
  by (rule except_Exception_returns) (rule image_body_raises)

lemma process_file_returns:
  "only_Exceptions E \<Longrightarrow> \<exists>s'. process_file E p out s = Inr s'"
  by (simp add: process_file_def Let_def strip_pdf_returns strip_docx_returns
      strip_image_returns)

lemma process_files_returns:
  "only_Exceptions E \<Longrightarrow> \<exists>s'. process_files E root fs out s = Inr s'"
proof (induction fs arbitrary: s)
  case Nil
  then show ?case by simp
next
  case (Cons f fs)
  from process_file_returns [OF Cons.prems] obtain s1 where
    "process_file E (joinpath root f) out s = Inr s1" by blast
  with Cons.IH [OF Cons.prems, of s1] show ?case by simp
qed




lemma only_Exceptions_env_disk_full: "only_Exceptions env_disk_full"
  by (simp add: only_Exceptions_def env_disk_full_def)

subsection \<open>Removing elements from a tree\<close>

lemma descendants_or_self_eq: "descendants_or_self t = t # proper_descendants t"
  by (cases t) (simp add: proper_descendants_def)

lemma label_remove_node [simp]: "label (remove_node i t) = label t"
  by (cases t) (simp add: label_def)

lemma ident_remove_node [simp]: "ident (remove_node i t) = ident t"
  by (cases t) simp

lemma tag_remove_node [simp]: "tag (remove_node i t) = tag t"
  by (cases t) simp

lemma proper_remove_node_labels:
  "label ` set (proper_descendants (remove_node i t)) \<subseteq> label ` set (proper_descendants t)"
proof (induction t)
  case (Element j tg cs)
  show ?case
  proof
    fix l assume "l \<in> label ` set (proper_descendants (remove_node i (Element j tg cs)))"
    then obtain c x where c: "c \<in> set cs" "ident c \<noteq> i"
      and x: "x \<in> set (descendants_or_self (remove_node i c))" and l: "l = label x"
      by (auto simp: proper_descendants_def)
    from x have "x = remove_node i c \<or> x \<in> set (proper_descendants (remove_node i c))"
      by (simp add: descendants_or_self_eq)
    then have "l \<in> label ` set (descendants_or_self c)"
    proof
      assume "x = remove_node i c"
      with l show ?thesis by (simp add: descendants_or_self_eq)
    next
      assume "x \<in> set (proper_descendants (remove_node i c))"
      with l Element.IH [OF c(1)] show ?thesis
        by (auto simp: descendants_or_self_eq)
    qed
    with c(1) show "l \<in> label ` set (proper_descendants (Element j tg cs))"
      by (auto simp: proper_descendants_def)
  qed
qed

lemma proper_remove_node_ident:
  "x \<in> set (proper_descendants (remove_node i t)) \<Longrightarrow> ident x \<noteq> i"
proof (induction t arbitrary: x)
  case (Element j tg cs)
  from Element.prems obtain c where c: "c \<in> set cs" "ident c \<noteq> i"
    and x: "x \<in> set (descendants_or_self (remove_node i c))"
    by (auto simp: proper_descendants_def)
  from x have "x = remove_node i c \<or> x \<in> set (proper_descendants (remove_node i c))"
    by (simp add: descendants_or_self_eq)
  then show ?case
  proof
    assume "x = remove_node i c"
    with c show ?thesis by simp
  next
    assume "x \<in> set (proper_descendants (remove_node i c))"
    with Element.IH [OF c(1)] show ?thesis .
  qed
qed

lemma remove_comments_root:
  "remove_comments cs root = Inr root' \<Longrightarrow>
     ident root' = ident root \<and> tag root' = tag root \<and> ident root \<notin> ident ` set cs"
proof (induction cs arbitrary: root)
  case Nil
  then show ?case by simp
next
  case (Cons c cs)
  from Cons.prems have ne: "ident c \<noteq> ident root"
    and run: "remove_comments cs (remove_node (ident c) root) = Inr root'"
    by (simp_all split: if_splits)
  from Cons.IH [OF run] ne show ?case by auto
qed

lemma remove_comments_proper:
  "remove_comments cs root = Inr root' \<Longrightarrow> x \<in> set (proper_descendants root') \<Longrightarrow>
     label x \<in> label ` set (proper_descendants root) \<and> ident x \<notin> ident ` set cs"
proof (induction cs arbitrary: root)
  case Nil
  then show ?case by simp
next
  case (Cons c cs)
  let ?r = "remove_node (ident c) root"
  from Cons.prems(1) have run: "remove_comments cs ?r = Inr root'"
    by (simp split: if_splits)
  from Cons.IH [OF run Cons.prems(2)]
  have 1: "label x \<in> label ` set (proper_descendants ?r)" and 2: "ident x \<notin> ident ` set cs"
    by simp_all
  from 1 obtain y where y: "y \<in> set (proper_descendants ?r)" "label x = label y"
    by auto
  from proper_remove_node_ident [OF y(1)] y(2) have "ident x \<noteq> ident c"
    by (simp add: label_def)
  moreover from 1 proper_remove_node_labels
  have "label x \<in> label ` set (proper_descendants root)" by blast
  ultimately show ?case using 2 by simp
qed

lemma remove_comments_no_comment:
  assumes "remove_comments (xpath_comment root) root = Inr root'"
  shows "xpath_comment root' = []"
proof -
  have root: "tag root' \<noteq> ''w:comment''"
  proof
    assume "tag root' = ''w:comment''"
    with remove_comments_root [OF assms] have "root \<in> set (xpath_comment root)"
      by (simp add: xpath_comment_def descendants_or_self_eq)
    with remove_comments_root [OF assms] show False by blast
  qed
  have "tag x \<noteq> ''w:comment''" if x: "x \<in> set (proper_descendants root')" for x
  proof
    assume t: "tag x = ''w:comment''"
    from remove_comments_proper [OF assms x] obtain y where
      y: "y \<in> set (proper_descendants root)" "label x = label y"
      and n: "ident x \<notin> ident ` set (xpath_comment root)" by auto
    from y t have "y \<in> set (xpath_comment root)"
      by (simp add: xpath_comment_def descendants_or_self_eq label_def)
    with y(2) n show False by (auto simp: label_def)
  qed
  with root show ?thesis
    by (auto simp: xpath_comment_def descendants_or_self_eq filter_empty_conv)
qed

subsection \<open>What a handler writes\<close>

lemma add_pages_pages: "pages (add_pages pgs w) = pages w @ pgs"
  by (induction pgs arbitrary: w) (simp_all add: add_page_def)

lemma pdf_body_output:
  assumes "pdf_body E src dst s = Inr s'"
  shows "\<exists>d. files s src = Some (PdfFile d)
           \<and> files s' dst = Some (PdfFile \<lparr>pages = pages d, info = None\<rparr>)"
  using assms
  by (auto simp: pdf_body_def Let_def PdfReader_def PdfWriter_def add_pages_pages
      split: sum.splits option.splits content.splits)

lemma docx_body_output:
  assumes "docx_body E src dst s = Inr s'"
  shows "\<exists>d root. files s src = Some (DocxFile d)
           \<and> remove_comments (xpath_comment (element d)) (element d) = Inr root
           \<and> files s' dst = Some (DocxFile (d\<lparr>core := clear_core (core d), element := root\<rparr>))"
  using assms
  by (auto simp: docx_body_def Let_def Document_def
      split: sum.splits option.splits content.splits prod.splits)







subsection \<open>The walk\<close>






lemma process_file_pdf:
  "lower (suffix p) = ''.pdf'' \<Longrightarrow>
     process_file E p out s = strip_pdf_metadata E p (joinpath out (name p)) s"
  by (simp add: process_file_def)

lemma pdf_body_written:
  assumes "pdf_body E src dst s = Inr s'"
  shows "\<exists>w. info w = None \<and> pdf_write_error E w dst = None"
proof -
  from assms obtain d :: pdf_document where
    "pdf_write_error E ((add_pages (pages d) PdfWriter)\<lparr>info := None\<rparr>) dst = None"
    by (auto simp: pdf_body_def Let_def split: sum.splits option.splits)
  moreover have "info ((add_pages (pages d) PdfWriter)\<lparr>info := None\<rparr>) = None"
    by simp
  ultimately show ?thesis by blast
qed

lemma pdf_body_write_raises:
  assumes "pdf_write_error E ((add_pages (pages d) PdfWriter)\<lparr>info := None\<rparr>) dst = Some e"
    and "files s src = Some (PdfFile d)" and "open_error E dst = None"
  shows "pdf_body E src dst s = Inl (e, store dst Partial s)"
  using assms by (simp add: pdf_body_def PdfReader_def)

section \<open>PDF\<close>

text \<open>
  C1. The code does not do what the claim says. The handler sets the writer's info entry
  to \<open>None\<close> and then writes; PyPDF2's \<open>write\<close> raises \<open>AttributeError\<close> on a trailer
  whose \<open>/Info\<close> entry is \<open>None\<close>. With a library that does so, the handler never
  reports a sanitized file; for every PDF it can read and every destination it can open,
  it logs the error and leaves at the destination the incomplete file that \<open>open\<close>
  created, not a PDF with the pages of the input.
\<close>

theorem strip_pdf_metadata_write_raises:
  assumes "\<And>w. info w = None \<Longrightarrow> pdf_write_error E w output_path = Some AttributeError"
  shows "(\<forall>s'. strip_pdf_metadata E file_path output_path s = Inr s' \<longrightarrow>
            logs s' \<noteq> logs s @ [Info PDF file_path output_path])
    \<and> (\<forall>d. files s file_path = Some (PdfFile d) \<and> open_error E output_path = None \<longrightarrow>
          strip_pdf_metadata E file_path output_path s
            = Inr (logging (Error PDF file_path AttributeError) (store output_path Partial s))
          \<and> files (logging (Error PDF file_path AttributeError) (store output_path Partial s))
               output_path = Some Partial)"
proof -
  have never: "logs s' \<noteq> logs s @ [Info PDF file_path output_path]"
    if run: "strip_pdf_metadata E file_path output_path s = Inr s'" for s'
  proof
    assume "logs s' = logs s @ [Info PDF file_path output_path]"
    with run have "pdf_body E file_path output_path s = Inr s'"
      unfolding strip_pdf_metadata_def by (rule except_Exception_success)
    from pdf_body_written [OF this] obtain w where
      "info w = None" "pdf_write_error E w output_path = None" by blast
    with assms [of w] show False by simp
  qed
  have fails: "strip_pdf_metadata E file_path output_path s
            = Inr (logging (Error PDF file_path AttributeError) (store output_path Partial s))"
    if d: "files s file_path = Some (PdfFile d)" and o: "open_error E output_path = None" for d
  proof -
    have "pdf_write_error E ((add_pages (pages d) PdfWriter)\<lparr>info := None\<rparr>) output_path
            = Some AttributeError"
      by (rule assms) simp
    from pdf_body_write_raises [OF this d o] show ?thesis
      by (simp add: strip_pdf_metadata_def except_Exception_def)
  qed
  from never fails show ?thesis by simp
qed

theorem strip_pdf_metadata_write_raises_witness:
  "(\<forall>w. pdf_write_error env_PyPDF2 (w\<lparr>info := None\<rparr>) [''out'', ''REPORT.PDF'']
          = Some AttributeError)
   \<and> files example_state [''in'', ''REPORT.PDF''] = Some (PdfFile example_pdf)
   \<and> open_error env_PyPDF2 [''out'', ''REPORT.PDF''] = None
   \<and> strip_pdf_metadata env_PyPDF2 [''in'', ''REPORT.PDF''] [''out'', ''REPORT.PDF'']
        example_state
       = Inr (logging (Error PDF [''in'', ''REPORT.PDF''] AttributeError)
                (store [''out'', ''REPORT.PDF''] Partial example_state))
   \<and> files (logging (Error PDF [''in'', ''REPORT.PDF''] AttributeError)
                (store [''out'', ''REPORT.PDF''] Partial example_state))
        [''out'', ''REPORT.PDF''] = Some Partial"
proof -
  have w: "pdf_write_error env_PyPDF2 w [''out'', ''REPORT.PDF''] = Some AttributeError"
    if "info w = None" for w
    using that by (simp add: env_PyPDF2_def)
  have d: "files example_state [''in'', ''REPORT.PDF''] = Some (PdfFile example_pdf)"
    by (rule example_files)
  have o: "open_error env_PyPDF2 [''out'', ''REPORT.PDF''] = None"
    by (simp add: env_PyPDF2_def)
  from strip_pdf_metadata_write_raises [OF w, of "[''in'', ''REPORT.PDF'']" example_state] d o
  have "strip_pdf_metadata env_PyPDF2 [''in'', ''REPORT.PDF''] [''out'', ''REPORT.PDF'']
        example_state
       = Inr (logging (Error PDF [''in'', ''REPORT.PDF''] AttributeError)
                (store [''out'', ''REPORT.PDF''] Partial example_state))
   \<and> files (logging (Error PDF [''in'', ''REPORT.PDF''] AttributeError)
                (store [''out'', ''REPORT.PDF''] Partial example_state))
        [''out'', ''REPORT.PDF''] = Some Partial"
    by blast
  moreover have "pdf_write_error env_PyPDF2 (w\<lparr>info := None\<rparr>) [''out'', ''REPORT.PDF'']
          = Some AttributeError" for w
    by (rule w) simp
  ultimately show ?thesis using d o by blast
qed

section \<open>DOCX\<close>

text \<open>
  C2. The code does not do what the claim says. When the DOCX handler has processed a
  file, each of the six core properties of the output holds the text \<open>None\<close>, which is
  what the library stores when \<open>None\<close> is assigned, so none is empty or absent; and
  while the main document part has no \<open>w:comment\<close> element left, the comments part,
  where a DOCX keeps its comments, is written as it was read: the output has the comment
  nodes the input had there. The example has two.
\<close>

theorem strip_docx_metadata_leaves_metadata:
  assumes "strip_docx_metadata E file_path output_path s = Inr s'"
    and "logs s' = logs s @ [Info DOCX file_path output_path]"
  shows "\<exists>d out. files s file_path = Some (DocxFile d)
            \<and> files s' output_path = Some (DocxFile out)
            \<and> author (core out) = Some ''None'' \<and> title (core out) = Some ''None''
            \<and> subject (core out) = Some ''None'' \<and> keywords (core out) = Some ''None''
            \<and> comments (core out) = Some ''None''
            \<and> last_modified_by (core out) = Some ''None''
            \<and> xpath_comment (element out) = []
            \<and> comments_part out = comments_part d
            \<and> comment_nodes out
                = (case comments_part d of None \<Rightarrow> [] | Some t \<Rightarrow> xpath_comment t)"
proof -
  from assms have "docx_body E file_path output_path s = Inr s'"
    unfolding strip_docx_metadata_def by (rule except_Exception_success)
  from docx_body_output [OF this] obtain d root where
    d: "files s file_path = Some (DocxFile d)"
    and r: "remove_comments (xpath_comment (element d)) (element d) = Inr root"
    and o: "files s' output_path
              = Some (DocxFile (d\<lparr>core := clear_core (core d), element := root\<rparr>))"
    by blast
  from remove_comments_no_comment [OF r] have "xpath_comment root = []" .
  with d o show ?thesis by (simp add: clear_core_def str_of_def comment_nodes_def)
qed

theorem strip_docx_metadata_leaves_metadata_witness:
  "author (core example_docx) = Some ''alice''
   \<and> length (comment_nodes example_docx) = 2
   \<and> (\<exists>s'. strip_docx_metadata env_ok [''in'', ''sub'', ''letter.docx'']
             [''out'', ''letter.docx''] example_state = Inr s'
      \<and> logs s' = logs example_state
                    @ [Info DOCX [''in'', ''sub'', ''letter.docx''] [''out'', ''letter.docx'']]
      \<and> (\<exists>out. files s' [''out'', ''letter.docx''] = Some (DocxFile out)
             \<and> author (core out) = Some ''None'' \<and> subject (core out) = Some ''None''
             \<and> length (comment_nodes out) = 2))"
proof -
  let ?src = "[''in'', ''sub'', ''letter.docx'']" and ?dst = "[''out'', ''letter.docx'']"
  define s' where "s' =
    logging (Info DOCX ?src ?dst)
      (store ?dst (DocxFile (example_docx\<lparr>core := clear_core (core example_docx)\<rparr>))
        example_state)"
  have src: "files example_state ?src = Some (DocxFile example_docx)"
    by (rule example_files)
  have rm: "remove_comments (xpath_comment (element example_docx)) (element example_docx)
              = Inr (element example_docx)"
    by (simp add: example_docx_def xpath_comment_def)
  have run: "strip_docx_metadata env_ok ?src ?dst example_state = Inr s'"
    by (simp add: strip_docx_metadata_def except_Exception_def docx_body_def Document_def
        src rm env_ok_def s'_def)
  have lg: "logs s' = logs example_state @ [Info DOCX ?src ?dst]"
    by (simp add: s'_def)
  have n: "length (comment_nodes example_docx) = 2"
    by (simp add: comment_nodes_def example_docx_def xpath_comment_def)
  from strip_docx_metadata_leaves_metadata [OF run lg] src obtain out where
    "files s' ?dst = Some (DocxFile out)" "author (core out) = Some ''None''"
    "subject (core out) = Some ''None''"
    "comment_nodes out
       = (case comments_part example_docx of None \<Rightarrow> [] | Some t \<Rightarrow> xpath_comment t)"
    by auto
  then have "files s' ?dst = Some (DocxFile out) \<and> author (core out) = Some ''None''
      \<and> subject (core out) = Some ''None'' \<and> length (comment_nodes out) = 2"
    by (simp add: example_docx_def xpath_comment_def)
  with run lg have "\<exists>s'. strip_docx_metadata env_ok ?src ?dst example_state = Inr s'
      \<and> logs s' = logs example_state @ [Info DOCX ?src ?dst]
      \<and> (\<exists>out. files s' ?dst = Some (DocxFile out)
             \<and> author (core out) = Some ''None'' \<and> subject (core out) = Some ''None''
             \<and> length (comment_nodes out) = 2)"
    by blast
  moreover have "author (core example_docx) = Some ''alice''"
    by (simp add: example_docx_def)
  ultimately show ?thesis using n by blast
qed

section \<open>Images\<close>




section \<open>Errors\<close>

text \<open>
  C4. Whatever error is raised while a handler processes a file, the handler returns
  normally, having logged the error with the path of the file at the state reached when
  it was raised; so a run over a batch of files returns too, and every file of the batch
  has been processed, each leaving its one line in the log, in order.
\<close>

theorem handlers_catch_every_error:
  assumes "only_Exceptions E"
  shows "(\<exists>s'. strip_pdf_metadata E file_path output_path s = Inr s')
    \<and> (\<exists>s'. strip_docx_metadata E file_path output_path s = Inr s')
    \<and> (\<exists>s'. strip_image_metadata E file_path output_path s = Inr s')
    \<and> (\<forall>e s1. pdf_body E file_path output_path s = Inl (e, s1) \<longrightarrow>
          strip_pdf_metadata E file_path output_path s
            = Inr (logging (Error PDF file_path e) s1))
    \<and> (\<forall>e s1. docx_body E file_path output_path s = Inl (e, s1) \<longrightarrow>
          strip_docx_metadata E file_path output_path s
            = Inr (logging (Error DOCX file_path e) s1))
    \<and> (\<forall>e s1. image_body E file_path output_path s = Inl (e, s1) \<longrightarrow>
          strip_image_metadata E file_path output_path s
            = Inr (logging (Error IMAGE file_path e) s1))
    \<and> (\<exists>s'. process_files E root fs output_dir s = Inr s'
          \<and> map entry_path (logs s') = map entry_path (logs s) @ map (joinpath root) fs)"
proof -
  have pdf: "strip_pdf_metadata E file_path output_path s = Inr (logging (Error PDF file_path e) s1)"
    if "pdf_body E file_path output_path s = Inl (e, s1)" for e s1
    unfolding strip_pdf_metadata_def
    using that pdf_body_raises [OF assms that] by (rule except_Exception_caught)
  have docx: "strip_docx_metadata E file_path output_path s
                = Inr (logging (Error DOCX file_path e) s1)"
    if "docx_body E file_path output_path s = Inl (e, s1)" for e s1
    unfolding strip_docx_metadata_def
    using that docx_body_raises [OF assms that] by (rule except_Exception_caught)
  have image: "strip_image_metadata E file_path output_path s
                = Inr (logging (Error IMAGE file_path e) s1)"
    if "image_body E file_path output_path s = Inl (e, s1)" for e s1
    unfolding strip_image_metadata_def
    using that image_body_raises [OF assms that] by (rule except_Exception_caught)
  from process_files_returns [OF assms] obtain s' where
    run: "process_files E root fs output_dir s = Inr s'" by blast
  from process_files_paths [OF run] run
  have batch: "\<exists>s'. process_files E root fs output_dir s = Inr s'
          \<and> map entry_path (logs s') = map entry_path (logs s) @ map (joinpath root) fs"
    by blast
  from strip_pdf_returns [OF assms] strip_docx_returns [OF assms] strip_image_returns [OF assms]
    pdf docx image batch
  show ?thesis by blast
qed

theorem handlers_catch_every_error_witness:
  "only_Exceptions env_disk_full
   \<and> strip_pdf_metadata env_disk_full [''in'', ''broken.pdf''] [''out'', ''broken.pdf'']
        example_state
       = Inr (logging (Error PDF [''in'', ''broken.pdf''] PdfReadError) example_state)
   \<and> (\<exists>s'. process_files env_disk_full [''in''] [''broken.pdf'', ''REPORT.PDF'', ''notes.txt'']
              [''out''] example_state = Inr s'
         \<and> map entry_path (logs s')
             = [[''in'', ''broken.pdf''], [''in'', ''REPORT.PDF''], [''in'', ''notes.txt'']])"
proof -
  have body: "pdf_body env_disk_full [''in'', ''broken.pdf''] [''out'', ''broken.pdf'']
                example_state = Inl (PdfReadError, example_state)"
    by (simp add: pdf_body_def PdfReader_def example_files)
  from handlers_catch_every_error [OF only_Exceptions_env_disk_full,
      of "[''in'', ''broken.pdf'']" "[''out'', ''broken.pdf'']" example_state
         "[''in'']" "[''broken.pdf'', ''REPORT.PDF'', ''notes.txt'']" "[''out'']"]
    body only_Exceptions_env_disk_full
  show ?thesis by (simp add: joinpath_def)
qed




section \<open>The dispatcher\<close>

text \<open>
  C6. The dispatcher decides by the lower-cased suffix of the path: \<open>.pdf\<close> goes to the
  PDF handler, \<open>.docx\<close> to the DOCX handler, \<open>.jpg\<close>, \<open>.jpeg\<close> and \<open>.png\<close> to the
  image handler, each with the destination \<open>output_dir / name\<close>; for any other suffix
  no handler runs: the warning is logged and every file is as before.
\<close>

theorem process_file_dispatch:
  "(lower (suffix p) = ''.pdf'' \<longrightarrow>
      process_file E p out s = strip_pdf_metadata E p (joinpath out (name p)) s)
   \<and> (lower (suffix p) = ''.docx'' \<longrightarrow>
      process_file E p out s = strip_docx_metadata E p (joinpath out (name p)) s)
   \<and> (lower (suffix p) \<in> {''.jpg'', ''.jpeg'', ''.png''} \<longrightarrow>
      process_file E p out s = strip_image_metadata E p (joinpath out (name p)) s)
   \<and> (lower (suffix p) \<notin> {''.pdf'', ''.docx'', ''.jpg'', ''.jpeg'', ''.png''} \<longrightarrow>
      process_file E p out s = Inr (logging (Warning p) s)
      \<and> files (logging (Warning p) s) = files s
      \<and> logs (logging (Warning p) s) = logs s @ [Warning p])"
  by (auto simp: process_file_def Let_def)

theorem process_file_dispatch_witness:
  "process_file env_ok [''in'', ''REPORT.PDF''] [''out''] example_state
     = strip_pdf_metadata env_ok [''in'', ''REPORT.PDF''] [''out'', ''REPORT.PDF''] example_state
   \<and> process_file env_ok [''in'', ''Letter.Docx''] [''out''] example_state
     = strip_docx_metadata env_ok [''in'', ''Letter.Docx''] [''out'', ''Letter.Docx''] example_state
   \<and> process_file env_ok [''in'', ''photo.JPG''] [''out''] example_state
     = strip_image_metadata env_ok [''in'', ''photo.JPG''] [''out'', ''photo.JPG''] example_state
   \<and> process_file env_ok [''in'', ''scan.jpeg''] [''out''] example_state
     = strip_image_metadata env_ok [''in'', ''scan.jpeg''] [''out'', ''scan.jpeg''] example_state
   \<and> process_file env_ok [''in'', ''logo.Png''] [''out''] example_state
     = strip_image_metadata env_ok [''in'', ''logo.Png''] [''out'', ''logo.Png''] example_state
   \<and> process_file env_ok [''in'', ''notes.txt''] [''out''] example_state
     = Inr (logging (Warning [''in'', ''notes.txt'']) example_state)"
proof -
  have 1: "lower (suffix [''in'', ''REPORT.PDF'']) = ''.pdf''" by code_simp
  have 2: "lower (suffix [''in'', ''Letter.Docx'']) = ''.docx''" by code_simp
  have 3: "lower (suffix [''in'', ''photo.JPG'']) \<in> {''.jpg'', ''.jpeg'', ''.png''}"
    by code_simp
  have 4: "lower (suffix [''in'', ''scan.jpeg'']) \<in> {''.jpg'', ''.jpeg'', ''.png''}"
    by code_simp
  have 5: "lower (suffix [''in'', ''logo.Png'']) \<in> {''.jpg'', ''.jpeg'', ''.png''}"
    by code_simp
  have 6: "lower (suffix [''in'', ''notes.txt''])
             \<notin> {''.pdf'', ''.docx'', ''.jpg'', ''.jpeg'', ''.png''}"
    by code_simp
  from 1 process_file_dispatch [of "[''in'', ''REPORT.PDF'']" env_ok "[''out'']" example_state]
  have a: "process_file env_ok [''in'', ''REPORT.PDF''] [''out''] example_state
     = strip_pdf_metadata env_ok [''in'', ''REPORT.PDF''] [''out'', ''REPORT.PDF''] example_state"
    by (simp add: joinpath_def name_def)
  from 2 process_file_dispatch [of "[''in'', ''Letter.Docx'']" env_ok "[''out'']" example_state]
  have b: "process_file env_ok [''in'', ''Letter.Docx''] [''out''] example_state
     = strip_docx_metadata env_ok [''in'', ''Letter.Docx''] [''out'', ''Letter.Docx''] example_state"
    by (simp add: joinpath_def name_def)
  from 3 process_file_dispatch [of "[''in'', ''photo.JPG'']" env_ok "[''out'']" example_state]
  have c: "process_file env_ok [''in'', ''photo.JPG''] [''out''] example_state
     = strip_image_metadata env_ok [''in'', ''photo.JPG''] [''out'', ''photo.JPG''] example_state"
    by (simp add: joinpath_def name_def)
  from 4 process_file_dispatch [of "[''in'', ''scan.jpeg'']" env_ok "[''out'']" example_state]
  have d: "process_file env_ok [''in'', ''scan.jpeg''] [''out''] example_state
     = strip_image_metadata env_ok [''in'', ''scan.jpeg''] [''out'', ''scan.jpeg''] example_state"
    by (simp add: joinpath_def name_def)
  from 5 process_file_dispatch [of "[''in'', ''logo.Png'']" env_ok "[''out'']" example_state]
  have e: "process_file env_ok [''in'', ''logo.Png''] [''out''] example_state
     = strip_image_metadata env_ok [''in'', ''logo.Png''] [''out'', ''logo.Png''] example_state"
    by (simp add: joinpath_def name_def)
  from 6 process_file_dispatch [of "[''in'', ''notes.txt'']" env_ok "[''out'']" example_state]
  have f: "process_file env_ok [''in'', ''notes.txt''] [''out''] example_state
     = Inr (logging (Warning [''in'', ''notes.txt'']) example_state)"
    by simp
  from a b c d e f show ?thesis by blast
qed

section \<open>The walker\<close>



section \<open>The destination path\<close>

text \<open>
  C8. Every dispatched file is handed to its handler with the destination
  \<open>output_dir / name\<close>: the directory the file was found in plays no part, so two files
  of the same name in different subdirectories get the same destination.
\<close>

theorem process_file_output_path:
  assumes "n \<noteq> []"
  shows "(lower (suffix (d @ [n])) = ''.pdf'' \<longrightarrow>
            process_file E (d @ [n]) out s = strip_pdf_metadata E (d @ [n]) (out @ [n]) s)
    \<and> (lower (suffix (d @ [n])) = ''.docx'' \<longrightarrow>
            process_file E (d @ [n]) out s = strip_docx_metadata E (d @ [n]) (out @ [n]) s)
    \<and> (lower (suffix (d @ [n])) \<in> {''.jpg'', ''.jpeg'', ''.png''} \<longrightarrow>
            process_file E (d @ [n]) out s = strip_image_metadata E (d @ [n]) (out @ [n]) s)
    \<and> joinpath out (name (d @ [n])) = joinpath out (name (d' @ [n]))"
  using assms by (auto simp: process_file_def Let_def)

theorem process_file_output_path_witness:
  "''a.pdf'' \<noteq> []
   \<and> process_file env_ok [''in'', ''x'', ''a.pdf''] [''out''] example_state
       = strip_pdf_metadata env_ok [''in'', ''x'', ''a.pdf''] [''out'', ''a.pdf''] example_state
   \<and> joinpath [''out''] (name [''in'', ''x'', ''a.pdf''])
       = joinpath [''out''] (name [''in'', ''y'', ''a.pdf''])"
proof -
  have n: "''a.pdf'' \<noteq> []" by simp
  have e: "lower (suffix ([''in'', ''x''] @ [''a.pdf''])) = ''.pdf''" by code_simp
  from process_file_output_path [OF n, of "[''in'', ''x'']" env_ok "[''out'']" example_state
      "[''in'', ''y'']"] e
  show ?thesis by simp
qed

section \<open>The source file is not written\<close>

text \<open>
  C9, as stated, fails. Two different paths can name the same file. With the output
  directory \<open>in/../in\<close>, or the absolute path of the input directory, the destination
  path differs from the source path \<open>in/REPORT.PDF\<close> and yet names the same file:
  opening the destination for writing truncates the source, and the source is left as
  the incomplete file of the failed write.
\<close>

theorem aliased_destination_overwrites_source:
  "joinpath [''in'', ''..'', ''in''] (name [''in'', ''REPORT.PDF'']) \<noteq> [''in'', ''REPORT.PDF'']
   \<and> joinpath [''/'', ''home'', ''in''] (name [''in'', ''REPORT.PDF'']) \<noteq> [''in'', ''REPORT.PDF'']
   \<and> files example_state [''in'', ''REPORT.PDF''] = Some (PdfFile example_pdf)
   \<and> files (final_state (process_file env_PyPDF2 [''in'', ''REPORT.PDF'']
               [''in'', ''..'', ''in''] example_state)) [''in'', ''REPORT.PDF'']
       = Some Partial
   \<and> files (final_state (process_file env_PyPDF2 [''in'', ''REPORT.PDF'']
               [''/'', ''home'', ''in''] example_state)) [''in'', ''REPORT.PDF'']
       = Some Partial"
proof -
  have e: "lower (suffix [''in'', ''REPORT.PDF'']) = ''.pdf''" by code_simp
  have src: "files example_state [''in'', ''REPORT.PDF''] = Some (PdfFile example_pdf)"
    by (rule example_files)
  show ?thesis
    by (simp add: process_file_pdf [OF e] joinpath_def name_def strip_pdf_metadata_def
        except_Exception_def pdf_body_def PdfReader_def src env_PyPDF2_def abspath_def)
qed

text \<open>
  C9, amended. Processing a file changes no file other than the one the destination
  \<open>output_dir / name\<close> names; when the destination does not name the same file as the
  source path, the source file is as it was, whether the call returns or an interrupt
  passes through it.
\<close>

theorem process_file_source_unchanged:
  assumes "resolve s (joinpath output_dir (name file_path)) \<noteq> resolve s file_path"
  shows "files (final_state (process_file E file_path output_dir s)) file_path = files s file_path
    \<and> (\<forall>q. resolve s q \<noteq> resolve s (joinpath output_dir (name file_path)) \<longrightarrow>
          files (final_state (process_file E file_path output_dir s)) q = files s q)"
  using assms by (simp add: process_file_frame)

theorem process_file_source_unchanged_witness:
  "resolve example_state (joinpath [''out''] (name [''in'', ''REPORT.PDF'']))
     \<noteq> resolve example_state [''in'', ''REPORT.PDF'']
   \<and> files (final_state (process_file env_PyPDF2 [''in'', ''REPORT.PDF''] [''out'']
               example_state))
        [''in'', ''REPORT.PDF''] = Some (PdfFile example_pdf)"
proof -
  have h: "resolve example_state (joinpath [''out''] (name [''in'', ''REPORT.PDF'']))
     \<noteq> resolve example_state [''in'', ''REPORT.PDF'']"
    by (simp add: joinpath_def name_def abspath_def)
  from process_file_source_unchanged [OF h, of env_PyPDF2] h show ?thesis
    by (simp add: example_files)
qed

section \<open>Names without an extension\<close>

text \<open>
  C10. A name without a dot, and a name whose only dot is its first character (such as
  \<open>.pdf\<close>), have the empty suffix; the dispatcher then calls no handler: it logs the
  warning and leaves every file as it was.
\<close>

theorem process_file_no_extension:
  assumes "CHR ''.'' \<notin> set n"
  shows "suffix (d @ [n]) = [] \<and> suffix (d @ [CHR ''.'' # n]) = []
    \<and> process_file E (d @ [n]) out s = Inr (logging (Warning (d @ [n])) s)
    \<and> process_file E (d @ [CHR ''.'' # n]) out s = Inr (logging (Warning (d @ [CHR ''.'' # n])) s)
    \<and> files (logging (Warning (d @ [n])) s) = files s
    \<and> files (logging (Warning (d @ [CHR ''.'' # n])) s) = files s"
  using assms
  by (simp add: suffix_no_dot suffix_leading_dot process_file_empty_suffix)

theorem process_file_no_extension_witness:
  "CHR ''.'' \<notin> set ''pdf''
   \<and> process_file env_ok [''in'', ''.pdf''] [''out''] example_state
       = Inr (logging (Warning [''in'', ''.pdf'']) example_state)
   \<and> process_file env_ok [''in'', ''pdf''] [''out''] example_state
       = Inr (logging (Warning [''in'', ''pdf'']) example_state)"
proof -
  have h: "CHR ''.'' \<notin> set ''pdf''" by simp
  from process_file_no_extension [OF h, of "[''in'']" env_ok "[''out'']" example_state] h
  show ?thesis by simp
qed

end
